theory Spec2Isabelle
  imports Main "HOL-Library.Sublist"
begin

section \<open>JavaScript values read by the configuration module\<close>

text \<open>
  The module \<^verbatim>\<open>src/api/config/environment.config.ts\<close> reads \<^verbatim>\<open>process.env\<close>, whose
  values are strings or \<^verbatim>\<open>undefined\<close>. A possibly undefined string is a \<open>string option\<close>
  with \<open>None\<close> for \<^verbatim>\<open>undefined\<close> (and for \<^verbatim>\<open>null\<close>, which the module only ever
  writes). Every \<^verbatim>\<open>throw new Error(msg)\<close> is the value \<open>Inl (Error msg)\<close>.
  A character stands for the code unit of its number, so the strings of the model are
  the JavaScript strings whose code units are below 256.
\<close>

datatype error = Error string

text \<open>Truthiness of a possibly undefined string: \<^verbatim>\<open>undefined\<close> and \<^verbatim>\<open>''\<close> are falsy.\<close>

definition truthy :: "string option \<Rightarrow> bool" where
  "truthy v = (case v of None \<Rightarrow> False | Some s \<Rightarrow> s \<noteq> [])"

text \<open>\<^verbatim>\<open>value || 'literal'\<close> on strings.\<close>

definition or_else :: "string option \<Rightarrow> string \<Rightarrow> string" where
  "or_else v d = (case v of None \<Rightarrow> d | Some s \<Rightarrow> if s = [] then d else s)"

text \<open>String conversion, as done by template literals, property keys and \<^verbatim>\<open>parseInt\<close>.\<close>

definition to_string :: "string option \<Rightarrow> string" where
  "to_string v = (case v of None \<Rightarrow> ''undefined'' | Some s \<Rightarrow> s)"

subsection \<open>\<^verbatim>\<open>parseInt(value, 10)\<close>\<close>

text \<open>
  The numbers \<^verbatim>\<open>parseInt\<close> can return: \<^verbatim>\<open>NaN\<close>, a double with an integer value, and
  the two infinities. The two zeros are not distinguished (both are falsy).
\<close>

datatype number = NaN | Number int | Infinity | NegInfinity

text \<open>
  The double nearest to a natural number \<open>m\<close>, ties to the even significand. Below
  \<open>2 ^ 53\<close> it is \<open>m\<close> itself. Otherwise \<open>m\<close> has more than 53 significant bits:
  \<open>ulp m\<close> is the weight of the last bit a double keeps, and the bits below it are
  rounded away (\<open>9007199254740992\<close> is \<open>2 ^ 53\<close>). From \<open>2 ^ 1024\<close> on the rounded
  value is no double and the result is an infinity. This is the number Node returns;
  the language standard also allows an approximation after the twentieth digit.
\<close>

function ulp :: "int \<Rightarrow> int" where
  "ulp m = (if m < 9007199254740992 then 1 else 2 * ulp (m div 2))"
  by pat_completeness auto
termination
  by (relation "measure nat") auto

definition round_to_double :: "int \<Rightarrow> int" where
  "round_to_double m =
     (let p = ulp m; q = m div p; r = m mod p
      in (if p < 2 * r \<or> (2 * r = p \<and> odd q) then q + 1 else q) * p)"

definition to_number :: "bool \<Rightarrow> int \<Rightarrow> number" where
  "to_number negative m =
     (let d = round_to_double m
      in if 2 ^ 1024 \<le> d then (if negative then NegInfinity else Infinity)
         else Number (if negative then - d else d))"

text \<open>
  \<^verbatim>\<open>parseInt\<close> converts its argument to a string, skips leading white space, reads an
  optional sign and then the longest run of decimal digits; anything after the digits is
  ignored. With no digit the result is \<^verbatim>\<open>NaN\<close>, otherwise the number of the signed
  digits. The white space below 256 is tab, line feed, vertical tab, form feed,
  carriage return, space and the no-break space.
\<close>

definition isWhiteSpace :: "char \<Rightarrow> bool" where
  "isWhiteSpace c = (of_char c \<in> {9::nat, 10, 11, 12, 13, 32, 160})"

definition isDigit :: "char \<Rightarrow> bool" where
  "isDigit c = (48 \<le> (of_char c :: nat) \<and> (of_char c :: nat) \<le> 57)"

definition digitValue :: "char \<Rightarrow> int" where
  "digitValue c = of_char c - 48"

definition digitsValue :: "string \<Rightarrow> int" where
  "digitsValue ds = foldl (\<lambda>acc c. 10 * acc + digitValue c) 0 ds"

definition leading_digits :: "string \<Rightarrow> string" where
  "leading_digits t =
     (let s = dropWhile isWhiteSpace t;
          r = (case s of [] \<Rightarrow> [] | c # cs \<Rightarrow> if c = CHR ''-'' \<or> c = CHR ''+'' then cs else s)
      in takeWhile isDigit r)"

definition parseInt :: "string option \<Rightarrow> number" where
  "parseInt v =
     (let s = dropWhile isWhiteSpace (to_string v);
          negative = (case s of [] \<Rightarrow> False | c # _ \<Rightarrow> c = CHR ''-'');
          ds = leading_digits (to_string v)
      in if ds = [] then NaN else to_number negative (digitsValue ds))"

text \<open>\<^verbatim>\<open>isNaN(n)\<close>, \<^verbatim>\<open>!!n\<close> and \<^verbatim>\<open>n || d\<close> on such a number.\<close>

definition isNaN :: "number \<Rightarrow> bool" where
  "isNaN n = (n = NaN)"

definition number_truthy :: "number \<Rightarrow> bool" where
  "number_truthy n =
     (case n of NaN \<Rightarrow> False | Number k \<Rightarrow> k \<noteq> 0 | Infinity \<Rightarrow> True | NegInfinity \<Rightarrow> True)"

definition number_or :: "number \<Rightarrow> int \<Rightarrow> number" where
  "number_or n d = (if number_truthy n then n else Number d)"

subsection \<open>Arrays and strings\<close>

text \<open>\<^verbatim>\<open>Array.prototype.indexOf\<close>: the first position of an element, or \<open>-1\<close>.\<close>

fun indexOf :: "'a list \<Rightarrow> 'a \<Rightarrow> int" where
  "indexOf [] x = -1"
| "indexOf (y # ys) x =
     (if y = x then 0 else (let i = indexOf ys x in if i = -1 then -1 else i + 1))"

text \<open>Reading an array at an index: \<^verbatim>\<open>undefined\<close> outside the array.\<close>

definition at :: "string list \<Rightarrow> int \<Rightarrow> string option" where
  "at xs i = (if 0 \<le> i \<and> nat i < length xs then Some (xs ! nat i) else None)"

text \<open>
  \<^verbatim>\<open>String.prototype.lastIndexOf\<close>: the last position at which the search string
  occurs, or \<open>-1\<close>.
\<close>

definition occurs_at :: "string \<Rightarrow> string \<Rightarrow> nat \<Rightarrow> bool" where
  "occurs_at s pat i = (i + length pat \<le> length s \<and> take (length pat) (drop i s) = pat)"

definition lastIndexOf :: "string \<Rightarrow> string \<Rightarrow> int" where
  "lastIndexOf s pat =
     (case filter (occurs_at s pat) (rev [0..<Suc (length s)]) of
        [] \<Rightarrow> -1
      | i # _ \<Rightarrow> int i)"

text \<open>\<^verbatim>\<open>String.prototype.split\<close> with a one-character separator.\<close>

fun split :: "char \<Rightarrow> string \<Rightarrow> string list" where
  "split sep [] = [[]]"
| "split sep (c # cs) =
     (if c = sep then [] # split sep cs
      else (case split sep cs of [] \<Rightarrow> [[c]] | w # ws \<Rightarrow> (c # w) # ws))"

text \<open>\<^verbatim>\<open>Array.prototype.join\<close>.\<close>

fun join :: "string \<Rightarrow> string list \<Rightarrow> string" where
  "join sep [] = []"
| "join sep [x] = x"
| "join sep (x # y # ys) = x @ sep @ join sep (y # ys)"

subsection \<open>The process environment and the file system\<close>

text \<open>
  \<^verbatim>\<open>process.env\<close> is a finite table of keys and string values; \<^verbatim>\<open>Object.keys\<close> lists
  its keys. \<^verbatim>\<open>existsSync\<close> answers from the file system, a predicate on paths, and is
  false for \<^verbatim>\<open>undefined\<close>.
\<close>

type_synonym process_env = "(string \<times> string) list"

definition getenv :: "process_env \<Rightarrow> string \<Rightarrow> string option" where
  "getenv env key = map_of env key"

definition keys :: "process_env \<Rightarrow> string list" where
  "keys env = map fst env"

definition existsSync :: "(string \<Rightarrow> bool) \<Rightarrow> string option \<Rightarrow> bool" where
  "existsSync fs p = (case p of None \<Rightarrow> False | Some f \<Rightarrow> fs f)"

section \<open>Enumerations\<close>

text \<open>
  An enumeration is an object with one property for each member: member name and
  string value. Reading \<^verbatim>\<open>e[k]\<close> gives the value of the member \<open>k\<close>; for a name that
  is no member, the read goes on to the properties every object inherits from
  \<^verbatim>\<open>Object.prototype\<close>, which are functions (or, for \<^verbatim>\<open>__proto__\<close>, an object) and
  so truthy values that are no strings; for any other name it gives \<^verbatim>\<open>undefined\<close>.
\<close>

type_synonym enum = "(string \<times> string) list"

datatype jsvalue = Undefined | Str string | Inherited string

definition object_prototype_names :: "string list" where
  "object_prototype_names =
     [''constructor'', ''__defineGetter__'', ''__defineSetter__'', ''hasOwnProperty'',
      ''__lookupGetter__'', ''__lookupSetter__'', ''isPrototypeOf'', ''propertyIsEnumerable'',
      ''toString'', ''valueOf'', ''__proto__'', ''toLocaleString'']"

definition enum_member :: "enum \<Rightarrow> string \<Rightarrow> jsvalue" where
  "enum_member e k =
     (case map_of e k of
        Some v \<Rightarrow> Str v
      | None \<Rightarrow> if k \<in> set object_prototype_names then Inherited k else Undefined)"

text \<open>
  Truthiness of such a value, and its conversion to a string in a template literal: an
  inherited function prints as Node prints it.
\<close>

definition js_truthy :: "jsvalue \<Rightarrow> bool" where
  "js_truthy x = (case x of Undefined \<Rightarrow> False | Str s \<Rightarrow> s \<noteq> [] | Inherited _ \<Rightarrow> True)"

definition js_to_string :: "jsvalue \<Rightarrow> string" where
  "js_to_string x =
     (case x of
        Undefined \<Rightarrow> ''undefined''
      | Str s \<Rightarrow> s
      | Inherited k \<Rightarrow>
          if k = ''__proto__'' then ''[object Object]''
          else if k = ''constructor'' then ''function Object() { [native code] }''
          else ''function '' @ k @ ''() { [native code] }'')"

text \<open>
  Modelled from the spec: the helper \<^verbatim>\<open>list\<close> of \<^verbatim>\<open>@utils/enum.util\<close> is not among
  the sources. The spec has it expand an enumerated vocabulary into its concrete
  strings, so it returns the values of the members, in order.
\<close>

definition list :: "enum \<Rightarrow> string list" where
  "list e = map snd e"

text \<open>
  Modelled from the spec: the declaration of \<^verbatim>\<open>ENVIRONMENT\<close> in
  \<^verbatim>\<open>@enums/environment.enum\<close> is not among the sources. The spec gives the deployment
  environments development, staging, production and test; the sources compare the
  active environment with the string \<^verbatim>\<open>'production'\<close> and name the \<^verbatim>\<open>.env\<close> file after
  it, so each member's value is its name.
\<close>

definition ENVIRONMENT_development :: string where
  "ENVIRONMENT_development = ''development''"

definition ENVIRONMENT_staging :: string where
  "ENVIRONMENT_staging = ''staging''"

definition ENVIRONMENT_production :: string where
  "ENVIRONMENT_production = ''production''"

definition ENVIRONMENT_test :: string where
  "ENVIRONMENT_test = ''test''"

definition ENVIRONMENT :: enum where
  "ENVIRONMENT =
     [(''development'', ENVIRONMENT_development), (''staging'', ENVIRONMENT_staging),
      (''production'', ENVIRONMENT_production), (''test'', ENVIRONMENT_test)]"

text \<open>
  Modelled from the spec: the enumerations of \<^verbatim>\<open>@enums/mime-type.enum\<close> are not among
  the sources and the spec does not list their members, so they are a parameter of
  the resolvers that use them.
\<close>

record mime_type_enum =
  ARCHIVE_MIME_TYPE :: enum
  AUDIO_MIME_TYPE :: enum
  DOCUMENT_MIME_TYPE :: enum
  IMAGE_MIME_TYPE :: enum
  VIDEO_MIME_TYPE :: enum
  CONTENT_MIME_TYPE :: enum

section \<open>\<^verbatim>\<open>EnvironmentConfiguration.load\<close>\<close>

text \<open>
  The static field \<^verbatim>\<open>environment\<close> starts as \<^verbatim>\<open>ENVIRONMENT.development\<close> and
  \<^verbatim>\<open>base\<close> starts undefined. \<^verbatim>\<open>load\<close> runs once, when the module is loaded.
  The field is declared a string, but the cast \<^verbatim>\<open>as string\<close> checks nothing: the field
  holds whatever \<^verbatim>\<open>ENVIRONMENT[...]\<close> gave, when that is truthy.
\<close>

record configuration =
  environment :: jsvalue
  base :: "string option"

definition load_environment :: "string list \<Rightarrow> jsvalue" where
  "load_environment argv =
     (if indexOf argv ''--env'' \<noteq> -1
      then (let m = enum_member ENVIRONMENT (to_string (at argv (indexOf argv ''--env'' + 1)))
            in if js_truthy m then m else Str ENVIRONMENT_development)
      else Str ENVIRONMENT_development)"

text \<open>The \<^verbatim>\<open>switch\<close> compares with \<^verbatim>\<open>===\<close> and has no default case.\<close>

definition load_base :: "jsvalue \<Rightarrow> string option" where
  "load_base e =
     (if e = Str ENVIRONMENT_development then Some ''dist''
      else if e = Str ENVIRONMENT_staging then Some ''''
      else if e = Str ENVIRONMENT_production then Some ''''
      else if e = Str ENVIRONMENT_test then Some ''dist''
      else None)"

text \<open>
  The last step of \<^verbatim>\<open>load\<close> hands the file to \<^verbatim>\<open>dotenv\<close>, which fills \<^verbatim>\<open>process.env\<close>;
  the resolvers below take the resulting \<^verbatim>\<open>process.env\<close> as their argument.
\<close>

definition load :: "string \<Rightarrow> (string \<Rightarrow> bool) \<Rightarrow> string list \<Rightarrow> error + configuration" where
  "load cwd fs argv =
     (let e = load_environment argv;
          b = load_base e;
          path = cwd @ ''/'' @ to_string b @ ''/env/'' @ js_to_string e @ ''.env''
      in if \<not> existsSync fs (Some path) then Inl (Error (''.env file not found on '' @ path))
         else Inr \<lparr>environment = e, base = b\<rparr>)"

section \<open>Field resolvers\<close>

subsection \<open>\<^verbatim>\<open>contentType\<close>\<close>

definition contentType :: "mime_type_enum \<Rightarrow> string option \<Rightarrow> error + jsvalue" where
  "contentType mimes value =
     (if truthy value \<and> \<not> js_truthy (enum_member (CONTENT_MIME_TYPE mimes) (to_string value))
      then Inl (Error (''CONTENT_TYPE bad value. Supported Content-Type must be one of ''
                        @ join '','' (list (CONTENT_MIME_TYPE mimes))))
      else Inr (if truthy value then Str (to_string value)
                else enum_member (CONTENT_MIME_TYPE mimes) ''application/json''))"

subsection \<open>\<^verbatim>\<open>jwtExpirationInterval\<close> and \<^verbatim>\<open>port\<close>\<close>

text \<open>
  \<^verbatim>\<open>jwtExpirationInterval\<close> returns the number \<^verbatim>\<open>parseInt\<close> gives; \<^verbatim>\<open>port\<close> returns
  the raw string.
\<close>

definition jwtExpirationInterval :: "string option \<Rightarrow> error + number" where
  "jwtExpirationInterval value =
     (if \<not> truthy value
      then Inl (Error ''JWT_EXPIRATION_MINUTES not found. Please fill this value in your .env file to indicate the life duration of JSON web token.'')
      else if isNaN (parseInt value)
      then Inl (Error ''JWT_EXPIRATION_MINUTES bad value. Expiration value must be a duration expressed as a number'')
      else Inr (parseInt value))"

definition port :: "string option \<Rightarrow> error + string option" where
  "port value =
     (if truthy value \<and> isNaN (parseInt value)
      then Inl (Error ''PORT bad value. Port value must be a number'')
      else Inr value)"

subsection \<open>\<^verbatim>\<open>resize\<close>\<close>

record resize_destinations =
  master :: string
  scale :: string

record resize_sizes =
  xs :: number
  sm :: number
  md :: number
  lg :: number
  xl :: number

record resize_configuration =
  resize_isActive :: bool
  destinations :: resize_destinations
  sizes :: resize_sizes

text \<open>The object literal has no \<^verbatim>\<open>throw\<close>: the resolver always yields a value.\<close>

definition resize :: "process_env \<Rightarrow> resize_configuration" where
  "resize env =
     \<lparr>resize_isActive = (number_truthy (parseInt (getenv env ''RESIZE_IS_ACTIVE'')) \<or> False),
      destinations =
        \<lparr>master = or_else (getenv env ''RESIZE_PATH_MASTER'') ''master-copy'',
         scale = or_else (getenv env ''RESIZE_PATH_SCALE'') ''rescale''\<rparr>,
      sizes =
        \<lparr>xs = number_or (parseInt (getenv env ''RESIZE_SIZE_XS'')) 280,
         sm = number_or (parseInt (getenv env ''RESIZE_SIZE_SM'')) 320,
         md = number_or (parseInt (getenv env ''RESIZE_SIZE_MD'')) 768,
         lg = number_or (parseInt (getenv env ''RESIZE_SIZE_LG'')) 1024,
         xl = number_or (parseInt (getenv env ''RESIZE_SIZE_XL'')) 1366\<rparr>\<rparr>"

subsection \<open>\<^verbatim>\<open>ssl\<close>\<close>

record ssl_configuration =
  ssl_isActive :: bool
  key :: "string option"
  cert :: "string option"

definition ssl ::
  "(string \<Rightarrow> bool) \<Rightarrow> string option \<Rightarrow> string option \<Rightarrow> string option
     \<Rightarrow> error + ssl_configuration" where
  "ssl fs isActive k c =
     (let is = number_truthy (parseInt isActive)
      in if is \<and> \<not> existsSync fs k
         then Inl (Error ''HTTPS_KEY bad value or private key not found. Please check your .env file configuration.'')
         else if is \<and> \<not> existsSync fs c
         then Inl (Error ''HTTPS_CERT bad value or SSL certificate not found. Please check your .env file configuration.'')
         else Inr \<lparr>ssl_isActive = is,
                   key = (if is then (if truthy k then k else None) else None),
                   cert = (if is then (if truthy c then c else None) else None)\<rparr>)"

definition ssl_of_env :: "(string \<Rightarrow> bool) \<Rightarrow> process_env \<Rightarrow> error + ssl_configuration" where
  "ssl_of_env fs env =
     ssl fs (getenv env ''HTTPS_IS_ACTIVE'') (getenv env ''HTTPS_KEY'') (getenv env ''HTTPS_CERT'')"

subsection \<open>\<^verbatim>\<open>typeormParams\<close> and \<^verbatim>\<open>typeorm\<close>\<close>

text \<open>
  \<^verbatim>\<open>Object.keys(process.env).filter(...).reduce(...)\<close> starts from the empty object
  and stores \<^verbatim>\<open>process.env[current]\<close> under each selected key.
\<close>

definition typeormParams :: "process_env \<Rightarrow> (string \<rightharpoonup> string)" where
  "typeormParams env =
     fold (\<lambda>current acc. acc(current := getenv env current))
       (filter (\<lambda>k. lastIndexOf k ''TYPEORM'' \<noteq> -1) (keys env)) Map.empty"

record typeorm_configuration =
  type :: "string option"
  name :: string
  typeorm_port :: "string option"
  host :: "string option"
  database :: "string option"
  user :: "string option"
  pwd :: "string option"
  sync :: bool
  log :: bool
  entities :: string
  migrations :: string
  subscribers :: string

text \<open>
  The checks read \<^verbatim>\<open>args\<close>, the values come from \<^verbatim>\<open>process.env\<close>; the paths use
  \<^verbatim>\<open>process.cwd()\<close> and \<^verbatim>\<open>EnvironmentConfiguration.base\<close>. The environment is the
  value \<^verbatim>\<open>load\<close> stored, compared with \<^verbatim>\<open>!==\<close> and \<^verbatim>\<open>===\<close>.
\<close>

definition typeorm ::
  "string \<Rightarrow> string option \<Rightarrow> process_env \<Rightarrow> (string \<rightharpoonup> string) \<Rightarrow> jsvalue
     \<Rightarrow> error + typeorm_configuration" where
  "typeorm cwd b env args e =
     (if \<not> truthy (args ''TYPEORM_TYPE'')
      then Inl (Error ''TYPEORM_TYPE not found. Please fill it in your .env file to define the database engine type.'')
      else if \<not> truthy (args ''TYPEORM_PORT'')
      then Inl (Error ''TYPEORM_PORT not found. Please fill it in your .env file to define the database server port.'')
      else if \<not> truthy (args ''TYPEORM_HOST'')
      then Inl (Error ''TYPEORM_HOST not found. Please fill it in your .env file to define the database server host.'')
      else if \<not> truthy (args ''TYPEORM_DB'')
      then Inl (Error ''TYPEORM_DB not found. Please fill it in your .env file to define the targeted database.'')
      else if \<not> truthy (args ''TYPEORM_USER'')
      then Inl (Error ''TYPEORM_USER not found. Please fill it in your .env file to define the user of the database.'')
      else if \<not> truthy (args ''TYPEORM_PWD'') \<and> e \<noteq> Str ENVIRONMENT_test
      then Inl (Error ''TYPEORM_PWD not found. Please fill it in your .env file to define the password of the database.'')
      else Inr
        \<lparr>type = getenv env ''TYPEORM_TYPE'',
         name = or_else (getenv env ''TYPEORM_NAME'') ''default'',
         typeorm_port = getenv env ''TYPEORM_PORT'',
         host = getenv env ''TYPEORM_HOST'',
         database = getenv env ''TYPEORM_DB'',
         user = getenv env ''TYPEORM_USER'',
         pwd = getenv env ''TYPEORM_PWD'',
         sync = (if e = Str ENVIRONMENT_production then False
                 else truthy (getenv env ''TYPEORM_SYNC'')),
         log = truthy (getenv env ''TYPEORM_LOG''),
         entities = cwd @ ''/'' @ to_string b @ ''/api/models/**/*.js'',
         migrations = cwd @ ''/'' @ to_string b @ ''/migrations/**/*.js'',
         subscribers = cwd @ ''/'' @ to_string b @ ''/api/subscribers/**/*.subscriber.js''\<rparr>)"

text \<open>The call \<^verbatim>\<open>(typeormParams, env)\<close> that closes the resolver.\<close>

definition typeorm_of_env ::
  "string \<Rightarrow> configuration \<Rightarrow> process_env \<Rightarrow> error + typeorm_configuration" where
  "typeorm_of_env cwd conf env =
     typeorm cwd (base conf) env (typeormParams env) (environment conf)"

subsection \<open>\<^verbatim>\<open>uploadParams\<close> and \<^verbatim>\<open>upload\<close>\<close>

definition uploadParams :: "process_env \<Rightarrow> (string \<rightharpoonup> string)" where
  "uploadParams env =
     fold (\<lambda>current acc. acc(current := getenv env current))
       (filter (\<lambda>k. lastIndexOf k ''UPLOAD'' \<noteq> -1) (keys env)) Map.empty"

record upload_configuration =
  destination :: string
  filesize :: number
  wildcards :: "string list"
  maxFiles :: number

text \<open>The object \<^verbatim>\<open>mimes\<close> of \<^verbatim>\<open>upload\<close>, with its keys in the order written.\<close>

definition upload_mimes :: "mime_type_enum \<Rightarrow> (string \<times> enum) list" where
  "upload_mimes mimes =
     [(''AUDIO'', AUDIO_MIME_TYPE mimes), (''ARCHIVE'', ARCHIVE_MIME_TYPE mimes),
      (''DOCUMENT'', DOCUMENT_MIME_TYPE mimes), (''IMAGE'', IMAGE_MIME_TYPE mimes),
      (''VIDEO'', VIDEO_MIME_TYPE mimes)]"

text \<open>
  \<^verbatim>\<open>input.filter(key => mimes[key]).map(key => mimes[key])\<close> keeps the enumerations of
  the keys that \<^verbatim>\<open>mimes\<close> has (an object is truthy); \<^verbatim>\<open>reduce\<close> appends their values.
  A name that \<^verbatim>\<open>mimes\<close> only inherits passes the filter of the code too, but the
  inherited value has no member for \<^verbatim>\<open>list\<close> to return and adds nothing: the result is
  the same as dropping the name at the filter, which is what is written here.
\<close>

definition upload_wildcards :: "mime_type_enum \<Rightarrow> string list \<Rightarrow> string list" where
  "upload_wildcards mimes input =
     fold (\<lambda>current acc. acc @ list current)
       (map (\<lambda>k. the (map_of (upload_mimes mimes) k))
          (filter (\<lambda>k. map_of (upload_mimes mimes) k \<noteq> None) input)) []"

definition upload_input :: "mime_type_enum \<Rightarrow> (string \<rightharpoonup> string) \<Rightarrow> string list" where
  "upload_input mimes args =
     (if truthy (args ''UPLOAD_WILDCARDS'')
      then split CHR '','' (to_string (args ''UPLOAD_WILDCARDS''))
      else map fst (upload_mimes mimes))"

definition upload ::
  "string \<Rightarrow> string option \<Rightarrow> mime_type_enum \<Rightarrow> (string \<rightharpoonup> string)
     \<Rightarrow> upload_configuration" where
  "upload cwd b mimes args =
     \<lparr>destination = cwd @ ''/'' @ to_string b @ ''/'' @ or_else (args ''UPLOAD_PATH'') ''public'',
      filesize = number_or (parseInt (args ''UPLOAD_MAX_FILE_SIZE'')) 1000000,
      wildcards = upload_wildcards mimes (upload_input mimes args),
      maxFiles = number_or (parseInt (args ''UPLOAD_MAX_FILES'')) 5\<rparr>"

definition upload_of_env ::
  "string \<Rightarrow> configuration \<Rightarrow> mime_type_enum \<Rightarrow> process_env \<Rightarrow> upload_configuration" where
  "upload_of_env cwd conf mimes env = upload cwd (base conf) mimes (uploadParams env)"

section \<open>Numeric fields with a default\<close>

text \<open>
  What \<^verbatim>\<open>parseInt(raw, 10) || d\<close> resolves to, as a relation between the raw value, the
  default \<open>d\<close> and the resolved number \<open>r\<close>: the default when the raw value is
  undefined, has no leading integer or parses to zero, and otherwise the number that
  \<^verbatim>\<open>parseInt\<close> returns.
\<close>

definition resolves_with_default :: "string option \<Rightarrow> int \<Rightarrow> number \<Rightarrow> bool" where
  "resolves_with_default raw d r \<longleftrightarrow>
     (raw = None \<longrightarrow> r = Number d)
     \<and> (parseInt raw = NaN \<longrightarrow> r = Number d)
     \<and> (parseInt raw = Number 0 \<longrightarrow> r = Number d)
     \<and> (number_truthy (parseInt raw) \<longrightarrow> r = parseInt raw)"

section \<open>Facts about the JavaScript operations\<close>

lemma parseInt_undefined: "parseInt None = NaN"
  by (simp add: parseInt_def leading_digits_def to_string_def isWhiteSpace_def isDigit_def)

lemma parseInt_NaN: "parseInt (Some s) = NaN \<longleftrightarrow> leading_digits s = []"
  by (simp add: parseInt_def to_number_def to_string_def Let_def)


lemma indexOf_first: "x \<notin> set pre \<Longrightarrow> indexOf (pre @ x # rest) x = int (length pre)"
  by (induction pre) (auto simp: Let_def)

lemma at_after: "at (pre @ x # v # post) (int (length pre) + 1) = Some v"
  by (simp add: at_def nth_append nat_add_distrib)

lemma at_end: "at (pre @ [x]) (int (length pre) + 1) = None"
  by (simp add: at_def)

lemma ENVIRONMENT_member:
  "enum_member ENVIRONMENT v =
     (if v \<in> {''development'', ''staging'', ''production'', ''test''} then Str v
      else if v \<in> set object_prototype_names then Inherited v
      else Undefined)"
  by (simp add: enum_member_def ENVIRONMENT_def ENVIRONMENT_development_def
      ENVIRONMENT_staging_def ENVIRONMENT_production_def ENVIRONMENT_test_def)

lemma fold_store:
  "fold (\<lambda>current acc. acc(current := f current)) ks m k = (if k \<in> set ks then f k else m k)"
  by (induction ks arbitrary: m) auto

lemma getenv_absent: "k \<notin> set (keys env) \<Longrightarrow> getenv env k = None"
  by (simp add: getenv_def keys_def map_of_eq_None_iff)

lemma filter_rev_upt_Nil: "filter P (rev [0..<n]) = [] \<longleftrightarrow> (\<forall>i<n. \<not> P i)"
  by (auto simp: filter_empty_conv)

lemma occurs_at_sublist: "(\<exists>i. occurs_at s pat i) \<longleftrightarrow> sublist pat s"
proof
  assume "\<exists>i. occurs_at s pat i"
  then obtain i where i: "i + length pat \<le> length s" "take (length pat) (drop i s) = pat"
    by (auto simp: occurs_at_def)
  have "drop i s = take (length pat) (drop i s) @ drop (length pat) (drop i s)"
    by (rule append_take_drop_id [symmetric])
  with i(2) have "drop i s = pat @ drop (length pat) (drop i s)" by simp
  then have "take i s @ drop i s = take i s @ pat @ drop (length pat) (drop i s)"
    by (rule arg_cong)
  then have "s = take i s @ pat @ drop (length pat) (drop i s)"
    by (simp only: append_take_drop_id)
  then show "sublist pat s" unfolding sublist_def by blast
next
  assume "sublist pat s"
  then obtain ps ss where "s = ps @ pat @ ss" unfolding sublist_def by blast
  then have "occurs_at s pat (length ps)" by (simp add: occurs_at_def)
  then show "\<exists>i. occurs_at s pat i" ..
qed

lemma lastIndexOf_found: "lastIndexOf s pat \<noteq> -1 \<longleftrightarrow> sublist pat s"
proof -
  have "lastIndexOf s pat \<noteq> -1 \<longleftrightarrow> filter (occurs_at s pat) (rev [0..<Suc (length s)]) \<noteq> []"
    unfolding lastIndexOf_def by (simp split: list.splits)
  also have "\<dots> \<longleftrightarrow> (\<exists>i<Suc (length s). occurs_at s pat i)"
    using filter_rev_upt_Nil [of "occurs_at s pat" "Suc (length s)"] by blast
  also have "\<dots> \<longleftrightarrow> (\<exists>i. occurs_at s pat i)"
    by (auto simp: occurs_at_def intro: le_imp_less_Suc dest: add_leD1)
  finally show ?thesis by (simp add: occurs_at_sublist)
qed

lemma typeormParams_lookup:
  "typeormParams env k = (if sublist ''TYPEORM'' k then getenv env k else None)"
  unfolding typeormParams_def fold_store
  by (simp add: lastIndexOf_found getenv_absent)

lemma uploadParams_lookup:
  "uploadParams env k = (if sublist ''UPLOAD'' k then getenv env k else None)"
  unfolding uploadParams_def fold_store
  by (simp add: lastIndexOf_found getenv_absent)

lemma sublist_TYPEORM_keys:
  "sublist ''TYPEORM'' ''TYPEORM_TYPE''" "sublist ''TYPEORM'' ''TYPEORM_PORT''"
  "sublist ''TYPEORM'' ''TYPEORM_HOST''" "sublist ''TYPEORM'' ''TYPEORM_DB''"
  "sublist ''TYPEORM'' ''TYPEORM_USER''" "sublist ''TYPEORM'' ''TYPEORM_PWD''"
  by (simp_all add: sublist_Cons_right)

lemma sublist_UPLOAD_keys:
  "sublist ''UPLOAD'' ''UPLOAD_WILDCARDS''" "sublist ''UPLOAD'' ''UPLOAD_PATH''"
  "sublist ''UPLOAD'' ''UPLOAD_MAX_FILE_SIZE''" "sublist ''UPLOAD'' ''UPLOAD_MAX_FILES''"
  by (simp_all add: sublist_Cons_right)

section \<open>The environment selector\<close>

lemma load_environment_first_token:
  assumes "''--env'' \<notin> set pre"
  shows "load_environment (pre @ ''--env'' # v # post) =
      (if v \<in> {''development'', ''staging'', ''production'', ''test''} then Str v
       else if v \<in> set object_prototype_names then Inherited v
       else Str ''development'')"
proof -
  have "indexOf (pre @ ''--env'' # v # post) ''--env'' = int (length pre)"
    using assms by (rule indexOf_first)
  then show ?thesis
    by (auto simp: load_environment_def at_after to_string_def ENVIRONMENT_member
        js_truthy_def ENVIRONMENT_development_def)
qed

lemma load_environment_last_token:
  assumes "''--env'' \<notin> set pre"
  shows "load_environment (pre @ [''--env'']) = Str ''development''"
proof -
  have "indexOf (pre @ [''--env'']) ''--env'' = int (length pre)"
    using assms by (rule indexOf_first)
  then show ?thesis
    by (simp add: load_environment_def at_end to_string_def ENVIRONMENT_member
        js_truthy_def ENVIRONMENT_development_def object_prototype_names_def)
qed


text \<open>
  Claim C4. \<^verbatim>\<open>ENVIRONMENT[...]\<close> is a property read, and a name that is no member of
  the enumeration but is inherited from \<^verbatim>\<open>Object.prototype\<close> reads as a truthy value.
  For \<^verbatim>\<open>--env constructor\<close> the value is unrecognized, yet the environment is not
  development: it is the inherited function. No case of the \<^verbatim>\<open>switch\<close> then runs,
  the base stays undefined, and on a file system that has the development file
  \<^verbatim>\<open>load\<close> throws. (For every value that \<^verbatim>\<open>Object.prototype\<close> does not have, the
  three lemmas above give the environment the claim states.)
\<close>

theorem load_environment_inherited_name:
  "load_environment [''node'', ''index.js'', ''--env'', ''constructor''] = Inherited ''constructor''
   \<and> load_base (Inherited ''constructor'') = None
   \<and> load ''/srv/app'' (\<lambda>p. p = ''/srv/app/dist/env/development.env'')
         [''node'', ''index.js'', ''--env'', ''constructor'']
       = Inl (Error ''.env file not found on /srv/app/undefined/env/function Object() { [native code] }.env'')"
proof -
  have e: "load_environment [''node'', ''index.js'', ''--env'', ''constructor'']
      = Inherited ''constructor''"
    using load_environment_first_token [of "[''node'', ''index.js'']" "''constructor''" "[]"]
    by (simp add: object_prototype_names_def)
  have b: "load_base (Inherited ''constructor'') = None"
    by (simp add: load_base_def)
  show ?thesis
    by (simp add: load_def e b Let_def to_string_def js_to_string_def existsSync_def)
qed



section \<open>Content type\<close>

lemma contentType_outside_vocabulary:
  assumes "v \<noteq> []" and "v \<notin> fst ` set (CONTENT_MIME_TYPE mimes)"
    and "v \<notin> set object_prototype_names"
  shows "contentType mimes (Some v) =
     Inl (Error (''CONTENT_TYPE bad value. Supported Content-Type must be one of ''
                  @ join '','' (list (CONTENT_MIME_TYPE mimes))))"
proof -
  have "map_of (CONTENT_MIME_TYPE mimes) v = None"
    using assms(2) by (simp add: map_of_eq_None_iff)
  then show ?thesis
    using assms(1,3) by (simp add: contentType_def enum_member_def truthy_def to_string_def js_truthy_def)
qed

lemma contentType_default:
  assumes "map_of (CONTENT_MIME_TYPE mimes) ''application/json'' = Some ''application/json''"
  shows "contentType mimes None = Inr (Str ''application/json'')"
    and "contentType mimes (Some []) = Inr (Str ''application/json'')"
  using assms by (simp_all add: contentType_def enum_member_def truthy_def)

text \<open>
  Claim C6. \<^verbatim>\<open>CONTENT_MIME_TYPE[value]\<close> is a property read, and a name that is no
  member of the enumeration but is inherited from \<^verbatim>\<open>Object.prototype\<close> reads as a
  truthy value. Such a \<^verbatim>\<open>CONTENT_TYPE\<close> is non-empty and outside the vocabulary, yet
  the resolver does not throw: it returns the raw value as the content type. (For the
  values that \<^verbatim>\<open>Object.prototype\<close> does not have, and for an undefined or empty
  value, the two lemmas above give what the claim states.)
\<close>

theorem contentType_inherited_name:
  "k \<in> set object_prototype_names \<Longrightarrow> k \<notin> fst ` set (CONTENT_MIME_TYPE mimes) \<Longrightarrow>
     contentType mimes (Some k) = Inr (Str k)"
proof -
  assume k: "k \<in> set object_prototype_names" and n: "k \<notin> fst ` set (CONTENT_MIME_TYPE mimes)"
  from n have "map_of (CONTENT_MIME_TYPE mimes) k = None"
    by (simp add: map_of_eq_None_iff)
  moreover from k have "k \<noteq> []"
    by (auto simp: object_prototype_names_def)
  ultimately show ?thesis
    using k by (simp add: contentType_def enum_member_def truthy_def to_string_def js_truthy_def)
qed

theorem contentType_inherited_name_witness:
  "contentType
     \<lparr>ARCHIVE_MIME_TYPE = [], AUDIO_MIME_TYPE = [], DOCUMENT_MIME_TYPE = [],
      IMAGE_MIME_TYPE = [], VIDEO_MIME_TYPE = [],
      CONTENT_MIME_TYPE = [(''application/json'', ''application/json''),
                           (''application/vnd.api+json'', ''application/vnd.api+json''),
                           (''multipart/form-data'', ''multipart/form-data'')]\<rparr>
     (Some ''constructor'')
   = Inr (Str ''constructor'')"
  using contentType_inherited_name [of "''constructor''"
      "\<lparr>ARCHIVE_MIME_TYPE = [], AUDIO_MIME_TYPE = [], DOCUMENT_MIME_TYPE = [],
        IMAGE_MIME_TYPE = [], VIDEO_MIME_TYPE = [],
        CONTENT_MIME_TYPE = [(''application/json'', ''application/json''),
                             (''application/vnd.api+json'', ''application/vnd.api+json''),
                             (''multipart/form-data'', ''multipart/form-data'')]\<rparr>"]
  by (simp add: object_prototype_names_def)

section \<open>TLS\<close>

text \<open>
  Claim C8. \<^verbatim>\<open>ssl\<close> throws exactly when \<^verbatim>\<open>HTTPS_IS_ACTIVE\<close> parses to a non-zero
  integer and the key file or the certificate file does not exist: the key is checked
  first and gives the \<^verbatim>\<open>HTTPS_KEY\<close> message, the certificate gives the \<^verbatim>\<open>HTTPS_CERT\<close>
  message. When the flag is undefined or parses to zero, the resolver returns an
  inactive section with key and certificate null, whatever the file system and the two
  raw paths are.
\<close>

theorem ssl_resolution:
  "((\<exists>e. ssl fs isActive k c = Inl e) \<longleftrightarrow>
      number_truthy (parseInt isActive) \<and> (\<not> existsSync fs k \<or> \<not> existsSync fs c))
   \<and> (number_truthy (parseInt isActive) \<and> \<not> existsSync fs k \<longrightarrow>
        ssl fs isActive k c = Inl (Error ''HTTPS_KEY bad value or private key not found. Please check your .env file configuration.''))
   \<and> (number_truthy (parseInt isActive) \<and> existsSync fs k \<and> \<not> existsSync fs c \<longrightarrow>
        ssl fs isActive k c = Inl (Error ''HTTPS_CERT bad value or SSL certificate not found. Please check your .env file configuration.''))
   \<and> (isActive = None \<or> parseInt isActive = Number 0 \<longrightarrow>
        ssl fs isActive k c = Inr \<lparr>ssl_isActive = False, key = None, cert = None\<rparr>)"
  by (auto simp: ssl_def Let_def number_truthy_def parseInt_undefined)

theorem ssl_resolution_witness:
  "ssl (\<lambda>p. p = ''/etc/ssl/server.crt'') (Some ''1'') (Some ''/etc/ssl/missing.key'') (Some ''/etc/ssl/server.crt'')
     = Inl (Error ''HTTPS_KEY bad value or private key not found. Please check your .env file configuration.'')
   \<and> ssl (\<lambda>p. p = ''/etc/ssl/server.crt'') (Some ''0'') (Some ''/etc/ssl/missing.key'') (Some ''/etc/ssl/missing.crt'')
     = Inr \<lparr>ssl_isActive = False, key = None, cert = None\<rparr>"
proof -
  have one: "parseInt (Some ''1'') = Number 1" by code_simp
  have zero: "parseInt (Some ''0'') = Number 0" by code_simp
  show ?thesis
    using ssl_resolution [of "\<lambda>p. p = ''/etc/ssl/server.crt''" "Some ''1''"
        "Some ''/etc/ssl/missing.key''" "Some ''/etc/ssl/server.crt''"]
      ssl_resolution [of "\<lambda>p. p = ''/etc/ssl/server.crt''" "Some ''0''"
        "Some ''/etc/ssl/missing.key''" "Some ''/etc/ssl/missing.crt''"]
    by (simp add: one zero number_truthy_def existsSync_def)
qed

section \<open>The database section\<close>

lemma typeorm_required_args:
  "typeormParams env ''TYPEORM_TYPE'' = getenv env ''TYPEORM_TYPE''"
  "typeormParams env ''TYPEORM_PORT'' = getenv env ''TYPEORM_PORT''"
  "typeormParams env ''TYPEORM_HOST'' = getenv env ''TYPEORM_HOST''"
  "typeormParams env ''TYPEORM_DB'' = getenv env ''TYPEORM_DB''"
  "typeormParams env ''TYPEORM_USER'' = getenv env ''TYPEORM_USER''"
  "typeormParams env ''TYPEORM_PWD'' = getenv env ''TYPEORM_PWD''"
  by (simp_all add: typeormParams_lookup sublist_TYPEORM_keys)

lemma typeorm_of_env_resolves:
  assumes "truthy (getenv env ''TYPEORM_TYPE'')" and "truthy (getenv env ''TYPEORM_PORT'')"
    and "truthy (getenv env ''TYPEORM_HOST'')" and "truthy (getenv env ''TYPEORM_DB'')"
    and "truthy (getenv env ''TYPEORM_USER'')" and "truthy (getenv env ''TYPEORM_PWD'')"
  shows "typeorm_of_env cwd conf env =
    Inr \<lparr>type = getenv env ''TYPEORM_TYPE'',
         name = or_else (getenv env ''TYPEORM_NAME'') ''default'',
         typeorm_port = getenv env ''TYPEORM_PORT'',
         host = getenv env ''TYPEORM_HOST'',
         database = getenv env ''TYPEORM_DB'',
         user = getenv env ''TYPEORM_USER'',
         pwd = getenv env ''TYPEORM_PWD'',
         sync = (if environment conf = Str ENVIRONMENT_production then False
                 else truthy (getenv env ''TYPEORM_SYNC'')),
         log = truthy (getenv env ''TYPEORM_LOG''),
         entities = cwd @ ''/'' @ to_string (base conf) @ ''/api/models/**/*.js'',
         migrations = cwd @ ''/'' @ to_string (base conf) @ ''/migrations/**/*.js'',
         subscribers = cwd @ ''/'' @ to_string (base conf) @ ''/api/subscribers/**/*.subscriber.js''\<rparr>"
  using assms by (simp add: typeorm_of_env_def typeorm_def typeorm_required_args)

text \<open>
  Claim C5. The resolver reports a key as not found when it is undefined or empty.
  With type, port, host, database and user found and \<^verbatim>\<open>TYPEORM_PWD\<close> not found, the
  database section resolves when the active environment is test, with the password
  as it is in \<^verbatim>\<open>process.env\<close> (undefined or empty); in every other environment the
  resolver throws the \<^verbatim>\<open>TYPEORM_PWD not found\<close> error.
\<close>

theorem typeorm_password_conditional:
  assumes "truthy (getenv env ''TYPEORM_TYPE'')" and "truthy (getenv env ''TYPEORM_PORT'')"
    and "truthy (getenv env ''TYPEORM_HOST'')" and "truthy (getenv env ''TYPEORM_DB'')"
    and "truthy (getenv env ''TYPEORM_USER'')" and "\<not> truthy (getenv env ''TYPEORM_PWD'')"
  shows "(environment conf = Str ''test'' \<longrightarrow>
           (\<exists>r. typeorm_of_env cwd conf env = Inr r \<and> pwd r = getenv env ''TYPEORM_PWD''
                \<and> (pwd r = None \<or> pwd r = Some [])))
       \<and> (environment conf \<noteq> Str ''test'' \<longrightarrow>
           typeorm_of_env cwd conf env =
             Inl (Error ''TYPEORM_PWD not found. Please fill it in your .env file to define the password of the database.''))"
proof -
  have "getenv env ''TYPEORM_PWD'' = None \<or> getenv env ''TYPEORM_PWD'' = Some []"
    using assms(6) by (auto simp: truthy_def split: option.splits)
  then show ?thesis
    using assms
    by (auto simp: typeorm_of_env_def typeorm_def typeorm_required_args ENVIRONMENT_test_def)
qed

theorem typeorm_password_conditional_witness:
  "typeorm_of_env ''/srv/app'' \<lparr>environment = Str ''test'', base = Some ''dist''\<rparr>
     [(''TYPEORM_TYPE'', ''mysql''), (''TYPEORM_PORT'', ''3306''), (''TYPEORM_HOST'', ''localhost''),
      (''TYPEORM_DB'', ''api''), (''TYPEORM_USER'', ''root'')]
   = Inr \<lparr>type = Some ''mysql'', name = ''default'', typeorm_port = Some ''3306'',
          host = Some ''localhost'', database = Some ''api'', user = Some ''root'', pwd = None,
          sync = False, log = False,
          entities = ''/srv/app/dist/api/models/**/*.js'',
          migrations = ''/srv/app/dist/migrations/**/*.js'',
          subscribers = ''/srv/app/dist/api/subscribers/**/*.subscriber.js''\<rparr>
   \<and> typeorm_of_env ''/srv/app'' \<lparr>environment = Str ''production'', base = Some ''''\<rparr>
     [(''TYPEORM_TYPE'', ''mysql''), (''TYPEORM_PORT'', ''3306''), (''TYPEORM_HOST'', ''localhost''),
      (''TYPEORM_DB'', ''api''), (''TYPEORM_USER'', ''root'')]
   = Inl (Error ''TYPEORM_PWD not found. Please fill it in your .env file to define the password of the database.'')"
proof -
  let ?env = "[(''TYPEORM_TYPE'', ''mysql''), (''TYPEORM_PORT'', ''3306''),
      (''TYPEORM_HOST'', ''localhost''), (''TYPEORM_DB'', ''api''), (''TYPEORM_USER'', ''root'')]"
  have h: "truthy (getenv ?env ''TYPEORM_TYPE'')" "truthy (getenv ?env ''TYPEORM_PORT'')"
    "truthy (getenv ?env ''TYPEORM_HOST'')" "truthy (getenv ?env ''TYPEORM_DB'')"
    "truthy (getenv ?env ''TYPEORM_USER'')" "\<not> truthy (getenv ?env ''TYPEORM_PWD'')"
    by (simp_all add: truthy_def getenv_def)
  note t = typeorm_password_conditional [OF h]
  have vals: "getenv ?env ''TYPEORM_NAME'' = None" "getenv ?env ''TYPEORM_SYNC'' = None"
    "getenv ?env ''TYPEORM_LOG'' = None" "getenv ?env ''TYPEORM_PWD'' = None"
    "getenv ?env ''TYPEORM_TYPE'' = Some ''mysql''" "getenv ?env ''TYPEORM_PORT'' = Some ''3306''"
    "getenv ?env ''TYPEORM_HOST'' = Some ''localhost''" "getenv ?env ''TYPEORM_DB'' = Some ''api''"
    "getenv ?env ''TYPEORM_USER'' = Some ''root''"
    by (simp_all add: getenv_def)
  from t [of "\<lparr>environment = Str ''test'', base = Some ''dist''\<rparr>" "''/srv/app''"]
  obtain r where r: "typeorm_of_env ''/srv/app'' \<lparr>environment = Str ''test'', base = Some ''dist''\<rparr> ?env = Inr r"
    by auto
  then have "r = \<lparr>type = Some ''mysql'', name = ''default'', typeorm_port = Some ''3306'',
          host = Some ''localhost'', database = Some ''api'', user = Some ''root'', pwd = None,
          sync = False, log = False,
          entities = ''/srv/app/dist/api/models/**/*.js'',
          migrations = ''/srv/app/dist/migrations/**/*.js'',
          subscribers = ''/srv/app/dist/api/subscribers/**/*.subscriber.js''\<rparr>"
    unfolding typeorm_of_env_def typeorm_def
    by (simp add: vals typeorm_required_args truthy_def or_else_def to_string_def
        ENVIRONMENT_test_def ENVIRONMENT_production_def split: if_splits)
  with r t [of "\<lparr>environment = Str ''production'', base = Some ''''\<rparr>" "''/srv/app''"]
  show ?thesis by simp
qed

text \<open>
  Claim C10. In a resolved database section the sync flag is false when the active
  environment is production, whatever \<^verbatim>\<open>TYPEORM_SYNC\<close> holds; in every other
  environment it is the truthiness of \<^verbatim>\<open>TYPEORM_SYNC\<close>.
\<close>

theorem typeorm_sync_flag:
  "typeorm_of_env cwd conf env = Inr r \<Longrightarrow>
     (environment conf = Str ''production'' \<longrightarrow> \<not> sync r)
     \<and> (environment conf \<noteq> Str ''production'' \<longrightarrow> sync r = truthy (getenv env ''TYPEORM_SYNC''))"
  by (auto simp: typeorm_of_env_def typeorm_def ENVIRONMENT_production_def split: if_splits)

theorem typeorm_sync_flag_witness:
  "sync \<lparr>type = Some ''mysql'', name = ''default'', typeorm_port = Some ''3306'',
          host = Some ''localhost'', database = Some ''api'', user = Some ''root'',
          pwd = Some ''secret'', sync = False, log = False,
          entities = ''/srv/app//api/models/**/*.js'',
          migrations = ''/srv/app//migrations/**/*.js'',
          subscribers = ''/srv/app//api/subscribers/**/*.subscriber.js''\<rparr> = False
   \<and> typeorm_of_env ''/srv/app'' \<lparr>environment = Str ''production'', base = Some ''''\<rparr>
     [(''TYPEORM_TYPE'', ''mysql''), (''TYPEORM_PORT'', ''3306''), (''TYPEORM_HOST'', ''localhost''),
      (''TYPEORM_DB'', ''api''), (''TYPEORM_USER'', ''root''), (''TYPEORM_PWD'', ''secret''),
      (''TYPEORM_SYNC'', ''1'')]
   = Inr \<lparr>type = Some ''mysql'', name = ''default'', typeorm_port = Some ''3306'',
          host = Some ''localhost'', database = Some ''api'', user = Some ''root'',
          pwd = Some ''secret'', sync = False, log = False,
          entities = ''/srv/app//api/models/**/*.js'',
          migrations = ''/srv/app//migrations/**/*.js'',
          subscribers = ''/srv/app//api/subscribers/**/*.subscriber.js''\<rparr>"
proof -
  let ?env = "[(''TYPEORM_TYPE'', ''mysql''), (''TYPEORM_PORT'', ''3306''),
      (''TYPEORM_HOST'', ''localhost''), (''TYPEORM_DB'', ''api''), (''TYPEORM_USER'', ''root''),
      (''TYPEORM_PWD'', ''secret''), (''TYPEORM_SYNC'', ''1'')]"
  have h: "truthy (getenv ?env ''TYPEORM_TYPE'')" "truthy (getenv ?env ''TYPEORM_PORT'')"
    "truthy (getenv ?env ''TYPEORM_HOST'')" "truthy (getenv ?env ''TYPEORM_DB'')"
    "truthy (getenv ?env ''TYPEORM_USER'')" "truthy (getenv ?env ''TYPEORM_PWD'')"
    by (simp_all add: truthy_def getenv_def)
  have r: "typeorm_of_env ''/srv/app'' \<lparr>environment = Str ''production'', base = Some ''''\<rparr> ?env
    = Inr \<lparr>type = Some ''mysql'', name = ''default'', typeorm_port = Some ''3306'',
          host = Some ''localhost'', database = Some ''api'', user = Some ''root'',
          pwd = Some ''secret'', sync = False, log = False,
          entities = ''/srv/app//api/models/**/*.js'',
          migrations = ''/srv/app//migrations/**/*.js'',
          subscribers = ''/srv/app//api/subscribers/**/*.subscriber.js''\<rparr>"
    unfolding typeorm_of_env_resolves [OF h]
    by (simp add: getenv_def or_else_def truthy_def to_string_def ENVIRONMENT_production_def)
  from typeorm_sync_flag [OF r] r show ?thesis by simp
qed

text \<open>
  Claim C2. The flags \<^verbatim>\<open>isActive\<close> of \<^verbatim>\<open>resize\<close> and of \<^verbatim>\<open>ssl\<close> are
  \<^verbatim>\<open>!!parseInt(value, 10)\<close>, so \<^verbatim>\<open>0\<close> gives false. The flags \<^verbatim>\<open>sync\<close> and \<^verbatim>\<open>log\<close>
  of \<^verbatim>\<open>typeorm\<close> are \<^verbatim>\<open>!!process.env.TYPEORM_SYNC\<close> and \<^verbatim>\<open>!!process.env.TYPEORM_LOG\<close>:
  the string is not parsed, and the non-empty string \<^verbatim>\<open>0\<close> gives true. The evaluation
  below is in the development environment with both keys set to \<^verbatim>\<open>0\<close>.
\<close>

theorem typeorm_flags_of_zero:
  "parseInt (Some ''0'') = Number 0
   \<and> resize_isActive (resize [(''RESIZE_IS_ACTIVE'', ''0'')]) = False
   \<and> ssl (\<lambda>p. True) (Some ''0'') None None = Inr \<lparr>ssl_isActive = False, key = None, cert = None\<rparr>
   \<and> typeorm_of_env ''/srv/app'' \<lparr>environment = Str ''development'', base = Some ''dist''\<rparr>
     [(''TYPEORM_TYPE'', ''mysql''), (''TYPEORM_PORT'', ''3306''), (''TYPEORM_HOST'', ''localhost''),
      (''TYPEORM_DB'', ''api''), (''TYPEORM_USER'', ''root''), (''TYPEORM_PWD'', ''secret''),
      (''TYPEORM_SYNC'', ''0''), (''TYPEORM_LOG'', ''0'')]
   = Inr \<lparr>type = Some ''mysql'', name = ''default'', typeorm_port = Some ''3306'',
          host = Some ''localhost'', database = Some ''api'', user = Some ''root'',
          pwd = Some ''secret'', sync = True, log = True,
          entities = ''/srv/app/dist/api/models/**/*.js'',
          migrations = ''/srv/app/dist/migrations/**/*.js'',
          subscribers = ''/srv/app/dist/api/subscribers/**/*.subscriber.js''\<rparr>"
proof -
  let ?env = "[(''TYPEORM_TYPE'', ''mysql''), (''TYPEORM_PORT'', ''3306''),
      (''TYPEORM_HOST'', ''localhost''), (''TYPEORM_DB'', ''api''), (''TYPEORM_USER'', ''root''),
      (''TYPEORM_PWD'', ''secret''), (''TYPEORM_SYNC'', ''0''), (''TYPEORM_LOG'', ''0'')]"
  have zero: "parseInt (Some ''0'') = Number 0" by code_simp
  have rs: "resize_isActive (resize [(''RESIZE_IS_ACTIVE'', ''0'')]) = False"
    by (simp add: resize_def getenv_def zero number_truthy_def)
  have s: "ssl (\<lambda>p. True) (Some ''0'') None None
      = Inr \<lparr>ssl_isActive = False, key = None, cert = None\<rparr>"
    by (simp add: ssl_def zero number_truthy_def)
  have h: "truthy (getenv ?env ''TYPEORM_TYPE'')" "truthy (getenv ?env ''TYPEORM_PORT'')"
    "truthy (getenv ?env ''TYPEORM_HOST'')" "truthy (getenv ?env ''TYPEORM_DB'')"
    "truthy (getenv ?env ''TYPEORM_USER'')" "truthy (getenv ?env ''TYPEORM_PWD'')"
    by (simp_all add: truthy_def getenv_def)
  have t: "typeorm_of_env ''/srv/app'' \<lparr>environment = Str ''development'', base = Some ''dist''\<rparr> ?env
    = Inr \<lparr>type = Some ''mysql'', name = ''default'', typeorm_port = Some ''3306'',
          host = Some ''localhost'', database = Some ''api'', user = Some ''root'',
          pwd = Some ''secret'', sync = True, log = True,
          entities = ''/srv/app/dist/api/models/**/*.js'',
          migrations = ''/srv/app/dist/migrations/**/*.js'',
          subscribers = ''/srv/app/dist/api/subscribers/**/*.subscriber.js''\<rparr>"
    unfolding typeorm_of_env_resolves [OF h]
    by (simp add: getenv_def or_else_def truthy_def to_string_def ENVIRONMENT_production_def)
  from zero rs s t show ?thesis by simp
qed

section \<open>Grouped keys\<close>

lemma getenv_found: "getenv env k \<noteq> None \<longleftrightarrow> k \<in> set (keys env)"
  by (simp add: getenv_def keys_def map_of_eq_None_iff)

text \<open>
  Claim C3, as stated, at a concrete input. The filter is
  \<^verbatim>\<open>key.lastIndexOf('TYPEORM') !== -1\<close>, which holds wherever the token occurs in the
  key: a key that has the token after its first character is selected although the
  token is no prefix of it. The same holds for \<^verbatim>\<open>UPLOAD\<close>.
\<close>

theorem grouped_key_selection_counterexample:
  "typeormParams [(''LEGACY_TYPEORM_HOST'', ''db1''), (''PORT'', ''8101'')] ''LEGACY_TYPEORM_HOST'' = Some ''db1''
   \<and> \<not> prefix ''TYPEORM'' ''LEGACY_TYPEORM_HOST''
   \<and> uploadParams [(''MAX_UPLOAD'', ''3'')] ''MAX_UPLOAD'' = Some ''3''
   \<and> \<not> prefix ''UPLOAD'' ''MAX_UPLOAD''"
proof -
  have "sublist ''TYPEORM'' ''LEGACY_TYPEORM_HOST''" "sublist ''UPLOAD'' ''MAX_UPLOAD''"
    by (simp_all add: sublist_Cons_right)
  then show ?thesis
    by (simp add: typeormParams_lookup uploadParams_lookup getenv_def)
qed

text \<open>
  Claim C3, amended. The sub-mapping of the database section has exactly the keys of
  \<^verbatim>\<open>process.env\<close> in which \<^verbatim>\<open>TYPEORM\<close> occurs, and that of the upload section exactly
  those in which \<^verbatim>\<open>UPLOAD\<close> occurs; every selected key, known or not, keeps its raw
  value. Keys with the token as a prefix are among the selected ones.
\<close>

theorem grouped_key_selection:
  "dom (typeormParams env) = {k \<in> set (keys env). sublist ''TYPEORM'' k}
   \<and> dom (uploadParams env) = {k \<in> set (keys env). sublist ''UPLOAD'' k}
   \<and> (sublist ''TYPEORM'' k \<longrightarrow> typeormParams env k = getenv env k)
   \<and> (sublist ''UPLOAD'' k \<longrightarrow> uploadParams env k = getenv env k)
   \<and> (prefix ''TYPEORM'' k \<longrightarrow> typeormParams env k = getenv env k)
   \<and> (prefix ''UPLOAD'' k \<longrightarrow> uploadParams env k = getenv env k)"
proof -
  have "dom (typeormParams env) = {k \<in> set (keys env). sublist ''TYPEORM'' k}"
    using getenv_found [of env] by (auto simp: dom_def typeormParams_lookup)
  moreover have "dom (uploadParams env) = {k \<in> set (keys env). sublist ''UPLOAD'' k}"
    using getenv_found [of env] by (auto simp: dom_def uploadParams_lookup)
  moreover have "sublist p k" if "prefix p k" for p :: string
    using that by (rule prefix_imp_sublist)
  ultimately show ?thesis
    by (simp add: typeormParams_lookup uploadParams_lookup)
qed

theorem grouped_key_selection_witness:
  "dom (typeormParams [(''TYPEORM_HOST'', ''db1''), (''TYPEORM_FUTURE_OPTION'', ''x''), (''PORT'', ''8101'')])
     = {''TYPEORM_HOST'', ''TYPEORM_FUTURE_OPTION''}
   \<and> typeormParams [(''TYPEORM_HOST'', ''db1''), (''TYPEORM_FUTURE_OPTION'', ''x''), (''PORT'', ''8101'')]
        ''TYPEORM_FUTURE_OPTION'' = Some ''x''"
proof -
  let ?env = "[(''TYPEORM_HOST'', ''db1''), (''TYPEORM_FUTURE_OPTION'', ''x''), (''PORT'', ''8101'')]"
  have s: "sublist ''TYPEORM'' ''TYPEORM_HOST''" "sublist ''TYPEORM'' ''TYPEORM_FUTURE_OPTION''"
    "\<not> sublist ''TYPEORM'' ''PORT''"
    by (simp_all add: sublist_Cons_right)
  have k: "{k \<in> set (keys ?env). sublist ''TYPEORM'' k} = {''TYPEORM_HOST'', ''TYPEORM_FUTURE_OPTION''}"
    unfolding keys_def using s by auto
  note g = grouped_key_selection [of ?env "''TYPEORM_FUTURE_OPTION''"]
  from g have "dom (typeormParams ?env) = {k \<in> set (keys ?env). sublist ''TYPEORM'' k}"
    by (rule conjunct1)
  moreover from g s(2) have "typeormParams ?env ''TYPEORM_FUTURE_OPTION'' = getenv ?env ''TYPEORM_FUTURE_OPTION''"
    by blast
  moreover have "getenv ?env ''TYPEORM_FUTURE_OPTION'' = Some ''x''"
    by (simp add: getenv_def)
  ultimately show ?thesis using k by simp
qed

section \<open>The upload section\<close>

lemma upload_args:
  "uploadParams env ''UPLOAD_WILDCARDS'' = getenv env ''UPLOAD_WILDCARDS''"
  "uploadParams env ''UPLOAD_PATH'' = getenv env ''UPLOAD_PATH''"
  "uploadParams env ''UPLOAD_MAX_FILE_SIZE'' = getenv env ''UPLOAD_MAX_FILE_SIZE''"
  "uploadParams env ''UPLOAD_MAX_FILES'' = getenv env ''UPLOAD_MAX_FILES''"
  by (simp_all add: uploadParams_lookup sublist_UPLOAD_keys)

lemma fold_append_list:
  "fold (\<lambda>current acc. acc @ list current) es acc = acc @ concat (map list es)"
  by (induction es arbitrary: acc) simp_all

lemma upload_wildcards_concat:
  "upload_wildcards mimes input =
     concat (map (\<lambda>k. case map_of (upload_mimes mimes) k of None \<Rightarrow> [] | Some e \<Rightarrow> list e) input)"
  unfolding upload_wildcards_def fold_append_list
  by (induction input) auto

lemma upload_mimes_lookup:
  "map_of (upload_mimes mimes) k =
     (if k = ''AUDIO'' then Some (AUDIO_MIME_TYPE mimes)
      else if k = ''ARCHIVE'' then Some (ARCHIVE_MIME_TYPE mimes)
      else if k = ''DOCUMENT'' then Some (DOCUMENT_MIME_TYPE mimes)
      else if k = ''IMAGE'' then Some (IMAGE_MIME_TYPE mimes)
      else if k = ''VIDEO'' then Some (VIDEO_MIME_TYPE mimes)
      else None)"
  by (simp add: upload_mimes_def)

lemma upload_category_member:
  "x \<in> set (case map_of (upload_mimes mimes) k of None \<Rightarrow> [] | Some e \<Rightarrow> list e) \<longleftrightarrow>
     (k = ''AUDIO'' \<and> x \<in> set (list (AUDIO_MIME_TYPE mimes)))
     \<or> (k = ''ARCHIVE'' \<and> x \<in> set (list (ARCHIVE_MIME_TYPE mimes)))
     \<or> (k = ''DOCUMENT'' \<and> x \<in> set (list (DOCUMENT_MIME_TYPE mimes)))
     \<or> (k = ''IMAGE'' \<and> x \<in> set (list (IMAGE_MIME_TYPE mimes)))
     \<or> (k = ''VIDEO'' \<and> x \<in> set (list (VIDEO_MIME_TYPE mimes)))"
  by (simp add: upload_mimes_lookup)

lemma upload_wildcards_set:
  "set (upload_wildcards mimes input) =
     (if ''AUDIO'' \<in> set input then set (list (AUDIO_MIME_TYPE mimes)) else {})
     \<union> (if ''ARCHIVE'' \<in> set input then set (list (ARCHIVE_MIME_TYPE mimes)) else {})
     \<union> (if ''DOCUMENT'' \<in> set input then set (list (DOCUMENT_MIME_TYPE mimes)) else {})
     \<union> (if ''IMAGE'' \<in> set input then set (list (IMAGE_MIME_TYPE mimes)) else {})
     \<union> (if ''VIDEO'' \<in> set input then set (list (VIDEO_MIME_TYPE mimes)) else {})"
  (is "?L = ?A \<union> ?R \<union> ?D \<union> ?I \<union> ?V")
proof (rule set_eqI)
  fix x
  have "x \<in> ?L \<longleftrightarrow>
      (\<exists>k\<in>set input.
         x \<in> set (case map_of (upload_mimes mimes) k of None \<Rightarrow> [] | Some e \<Rightarrow> list e))"
    unfolding upload_wildcards_concat by simp
  also have "\<dots> \<longleftrightarrow>
      (''AUDIO'' \<in> set input \<and> x \<in> set (list (AUDIO_MIME_TYPE mimes)))
      \<or> (''ARCHIVE'' \<in> set input \<and> x \<in> set (list (ARCHIVE_MIME_TYPE mimes)))
      \<or> (''DOCUMENT'' \<in> set input \<and> x \<in> set (list (DOCUMENT_MIME_TYPE mimes)))
      \<or> (''IMAGE'' \<in> set input \<and> x \<in> set (list (IMAGE_MIME_TYPE mimes)))
      \<or> (''VIDEO'' \<in> set input \<and> x \<in> set (list (VIDEO_MIME_TYPE mimes)))"
    unfolding upload_category_member by blast
  also have "\<dots> \<longleftrightarrow> x \<in> ?A \<union> ?R \<union> ?D \<union> ?I \<union> ?V"
    by (simp only: Un_iff if_split_mem1 empty_iff) simp
  finally show "x \<in> ?L \<longleftrightarrow> x \<in> ?A \<union> ?R \<union> ?D \<union> ?I \<union> ?V" .
qed

lemma split_IMAGE_BOGUS: "split CHR '','' ''IMAGE,BOGUS'' = [''IMAGE'', ''BOGUS'']"
  by simp

text \<open>
  Claim C7. \<^verbatim>\<open>upload\<close> has no \<^verbatim>\<open>throw\<close> and always yields a section. With a
  non-empty \<^verbatim>\<open>UPLOAD_WILDCARDS\<close>, the accepted MIME types are, as a set, the union of
  the values of the categories AUDIO, ARCHIVE, DOCUMENT, IMAGE and VIDEO that occur among
  the comma-separated tokens; every other token contributes nothing. With the key
  undefined or empty, they are the values of all five categories, in the order of
  \<^verbatim>\<open>mimes\<close>.
  For \<^verbatim>\<open>UPLOAD_WILDCARDS=IMAGE,BOGUS\<close> they are exactly the values of
  \<^verbatim>\<open>IMAGE_MIME_TYPE\<close>.
\<close>

theorem upload_wildcards_expansion:
  "(getenv env ''UPLOAD_WILDCARDS'' = Some v \<and> v \<noteq> [] \<longrightarrow>
      set (wildcards (upload_of_env cwd conf mimes env)) =
        (if ''AUDIO'' \<in> set (split CHR '','' v) then set (list (AUDIO_MIME_TYPE mimes)) else {})
        \<union> (if ''ARCHIVE'' \<in> set (split CHR '','' v) then set (list (ARCHIVE_MIME_TYPE mimes)) else {})
        \<union> (if ''DOCUMENT'' \<in> set (split CHR '','' v) then set (list (DOCUMENT_MIME_TYPE mimes)) else {})
        \<union> (if ''IMAGE'' \<in> set (split CHR '','' v) then set (list (IMAGE_MIME_TYPE mimes)) else {})
        \<union> (if ''VIDEO'' \<in> set (split CHR '','' v) then set (list (VIDEO_MIME_TYPE mimes)) else {}))
   \<and> (getenv env ''UPLOAD_WILDCARDS'' = None \<or> getenv env ''UPLOAD_WILDCARDS'' = Some [] \<longrightarrow>
        wildcards (upload_of_env cwd conf mimes env) =
          list (AUDIO_MIME_TYPE mimes) @ list (ARCHIVE_MIME_TYPE mimes)
          @ list (DOCUMENT_MIME_TYPE mimes) @ list (IMAGE_MIME_TYPE mimes)
          @ list (VIDEO_MIME_TYPE mimes))
   \<and> (getenv env ''UPLOAD_WILDCARDS'' = Some ''IMAGE,BOGUS'' \<longrightarrow>
        wildcards (upload_of_env cwd conf mimes env) = list (IMAGE_MIME_TYPE mimes))"
proof -
  have w: "wildcards (upload_of_env cwd conf mimes env) =
      upload_wildcards mimes
        (if truthy (getenv env ''UPLOAD_WILDCARDS'')
         then split CHR '','' (to_string (getenv env ''UPLOAD_WILDCARDS''))
         else map fst (upload_mimes mimes))"
    by (simp add: upload_of_env_def upload_def upload_input_def upload_args)
  have given: "set (wildcards (upload_of_env cwd conf mimes env)) =
      set (upload_wildcards mimes (split CHR '','' v))"
    if "getenv env ''UPLOAD_WILDCARDS'' = Some v" "v \<noteq> []"
    unfolding w using that by (simp add: truthy_def to_string_def)
  have absent: "wildcards (upload_of_env cwd conf mimes env) =
      list (AUDIO_MIME_TYPE mimes) @ list (ARCHIVE_MIME_TYPE mimes)
      @ list (DOCUMENT_MIME_TYPE mimes) @ list (IMAGE_MIME_TYPE mimes)
      @ list (VIDEO_MIME_TYPE mimes)"
    if "getenv env ''UPLOAD_WILDCARDS'' = None \<or> getenv env ''UPLOAD_WILDCARDS'' = Some []"
  proof -
    from that have "\<not> truthy (getenv env ''UPLOAD_WILDCARDS'')"
      by (auto simp: truthy_def)
    then show ?thesis
      unfolding w by (simp add: upload_wildcards_concat) (simp add: upload_mimes_def)
  qed
  have bogus: "wildcards (upload_of_env cwd conf mimes env) = list (IMAGE_MIME_TYPE mimes)"
    if "getenv env ''UPLOAD_WILDCARDS'' = Some ''IMAGE,BOGUS''"
    unfolding w using that
    by (simp add: truthy_def to_string_def split_IMAGE_BOGUS upload_wildcards_concat
        upload_mimes_lookup)
  show ?thesis
    using given absent bogus by (simp only: upload_wildcards_set) blast
qed

theorem upload_wildcards_expansion_witness:
  "wildcards (upload_of_env ''/srv/app'' \<lparr>environment = Str ''test'', base = Some ''dist''\<rparr>
     \<lparr>ARCHIVE_MIME_TYPE = [(''ZIP'', ''application/zip'')],
      AUDIO_MIME_TYPE = [(''MP3'', ''audio/mpeg'')],
      DOCUMENT_MIME_TYPE = [(''PDF'', ''application/pdf'')],
      IMAGE_MIME_TYPE = [(''PNG'', ''image/png''), (''JPG'', ''image/jpeg'')],
      VIDEO_MIME_TYPE = [(''MP4'', ''video/mp4'')],
      CONTENT_MIME_TYPE = [(''application/json'', ''application/json'')]\<rparr>
     [(''UPLOAD_WILDCARDS'', ''IMAGE,BOGUS'')])
   = [''image/png'', ''image/jpeg'']"
  using upload_wildcards_expansion [of "[(''UPLOAD_WILDCARDS'', ''IMAGE,BOGUS'')]" "''IMAGE,BOGUS''"
      "''/srv/app''" "\<lparr>environment = Str ''test'', base = Some ''dist''\<rparr>"
      "\<lparr>ARCHIVE_MIME_TYPE = [(''ZIP'', ''application/zip'')],
        AUDIO_MIME_TYPE = [(''MP3'', ''audio/mpeg'')],
        DOCUMENT_MIME_TYPE = [(''PDF'', ''application/pdf'')],
        IMAGE_MIME_TYPE = [(''PNG'', ''image/png''), (''JPG'', ''image/jpeg'')],
        VIDEO_MIME_TYPE = [(''MP4'', ''video/mp4'')],
        CONTENT_MIME_TYPE = [(''application/json'', ''application/json'')]\<rparr>"]
  by (simp add: getenv_def list_def)

section \<open>Numeric fields\<close>

lemma number_or_resolves: "resolves_with_default raw d (number_or (parseInt raw) d)"
  by (auto simp: resolves_with_default_def number_or_def number_truthy_def parseInt_undefined)

text \<open>
  Claim C1, as stated, at concrete inputs. \<^verbatim>\<open>RESIZE_SIZE_SM=abc\<close> has no leading
  integer, and \<^verbatim>\<open>resize\<close> resolves with the default 320 in its place: the sizes are
  \<^verbatim>\<open>parseInt(...) || default\<close> with no check. The same expression replaces the present
  integer \<^verbatim>\<open>0\<close> by the default. \<^verbatim>\<open>parseInt\<close> reads the leading integer and ignores
  the rest, so \<^verbatim>\<open>15min\<close> and \<^verbatim>\<open>800px\<close> are accepted. An undefined
  \<^verbatim>\<open>JWT_EXPIRATION_MINUTES\<close> is an error, not a default.
\<close>

theorem numeric_fields_counterexample:
  "parseInt (Some ''abc'') = NaN
   \<and> sm (sizes (resize [(''RESIZE_SIZE_SM'', ''abc'')])) = Number 320
   \<and> sm (sizes (resize [(''RESIZE_SIZE_SM'', ''0'')])) = Number 320
   \<and> md (sizes (resize [(''RESIZE_SIZE_MD'', ''800px'')])) = Number 800
   \<and> jwtExpirationInterval (Some ''15min'') = Inr (Number 15)
   \<and> jwtExpirationInterval None
       = Inl (Error ''JWT_EXPIRATION_MINUTES not found. Please fill this value in your .env file to indicate the life duration of JSON web token.'')"
proof -
  have p: "parseInt (Some ''abc'') = NaN" "parseInt (Some ''0'') = Number 0"
    "parseInt (Some ''800px'') = Number 800" "parseInt (Some ''15min'') = Number 15"
    by code_simp+
  show ?thesis
    by (simp add: p resize_def getenv_def number_or_def number_truthy_def
        jwtExpirationInterval_def isNaN_def truthy_def)
qed

text \<open>
  Claim C1, amended. For the JWT expiration and the port, a non-empty value with no
  leading base-10 integer (after white space and a sign) makes the resolver throw its
  \<^verbatim>\<open>bad value\<close> error, and a non-empty value with a leading integer resolves: the
  expiration to the number \<^verbatim>\<open>parseInt\<close> returns, the port to the raw string. An
  undefined or empty JWT expiration is the \<^verbatim>\<open>not found\<close> error. The five resize
  sizes, the upload file size and the upload file count never fail, and each resolves
  to the number \<^verbatim>\<open>parseInt\<close> returns when that is not zero. The sizes sm, md, lg and
  xl, the file size and the file count resolve to their defaults when the raw value is
  undefined, has no leading integer or parses to zero.
\<close>

theorem numeric_fields_resolution:
  "(parseInt (Some s) = NaN \<longleftrightarrow> leading_digits s = [])
   \<and> (truthy v \<and> parseInt v = NaN \<longrightarrow>
      jwtExpirationInterval v = Inl (Error ''JWT_EXPIRATION_MINUTES bad value. Expiration value must be a duration expressed as a number'')
      \<and> port v = Inl (Error ''PORT bad value. Port value must be a number''))
   \<and> (truthy v \<and> parseInt v \<noteq> NaN \<longrightarrow>
        jwtExpirationInterval v = Inr (parseInt v) \<and> port v = Inr v)
   \<and> (\<not> truthy v \<longrightarrow>
        jwtExpirationInterval v = Inl (Error ''JWT_EXPIRATION_MINUTES not found. Please fill this value in your .env file to indicate the life duration of JSON web token.''))
   \<and> (number_truthy (parseInt (getenv env ''RESIZE_SIZE_XS'')) \<longrightarrow>
        xs (sizes (resize env)) = parseInt (getenv env ''RESIZE_SIZE_XS''))
   \<and> resolves_with_default (getenv env ''RESIZE_SIZE_SM'') 320 (sm (sizes (resize env)))
   \<and> resolves_with_default (getenv env ''RESIZE_SIZE_MD'') 768 (md (sizes (resize env)))
   \<and> resolves_with_default (getenv env ''RESIZE_SIZE_LG'') 1024 (lg (sizes (resize env)))
   \<and> resolves_with_default (getenv env ''RESIZE_SIZE_XL'') 1366 (xl (sizes (resize env)))
   \<and> resolves_with_default (getenv env ''UPLOAD_MAX_FILE_SIZE'') 1000000
        (filesize (upload_of_env cwd conf mimes env))
   \<and> resolves_with_default (getenv env ''UPLOAD_MAX_FILES'') 5
        (maxFiles (upload_of_env cwd conf mimes env))"
proof -
  have jp: "jwtExpirationInterval v = Inl (Error ''JWT_EXPIRATION_MINUTES bad value. Expiration value must be a duration expressed as a number'')
      \<and> port v = Inl (Error ''PORT bad value. Port value must be a number'')"
    if "truthy v" "parseInt v = NaN"
    using that by (simp add: jwtExpirationInterval_def port_def isNaN_def)
  have ok: "jwtExpirationInterval v = Inr (parseInt v) \<and> port v = Inr v"
    if "truthy v" "parseInt v \<noteq> NaN"
    using that by (simp add: jwtExpirationInterval_def port_def isNaN_def)
  have missing: "jwtExpirationInterval v = Inl (Error ''JWT_EXPIRATION_MINUTES not found. Please fill this value in your .env file to indicate the life duration of JSON web token.'')"
    if "\<not> truthy v"
    using that by (simp add: jwtExpirationInterval_def)
  have x: "xs (sizes (resize env)) = parseInt (getenv env ''RESIZE_SIZE_XS'')"
    if "number_truthy (parseInt (getenv env ''RESIZE_SIZE_XS''))"
    using that by (simp add: resize_def number_or_def)
  have r: "sm (sizes (resize env)) = number_or (parseInt (getenv env ''RESIZE_SIZE_SM'')) 320"
    "md (sizes (resize env)) = number_or (parseInt (getenv env ''RESIZE_SIZE_MD'')) 768"
    "lg (sizes (resize env)) = number_or (parseInt (getenv env ''RESIZE_SIZE_LG'')) 1024"
    "xl (sizes (resize env)) = number_or (parseInt (getenv env ''RESIZE_SIZE_XL'')) 1366"
    by (simp_all add: resize_def)
  have u: "filesize (upload_of_env cwd conf mimes env)
        = number_or (parseInt (getenv env ''UPLOAD_MAX_FILE_SIZE'')) 1000000"
    "maxFiles (upload_of_env cwd conf mimes env)
        = number_or (parseInt (getenv env ''UPLOAD_MAX_FILES'')) 5"
    by (simp_all add: upload_of_env_def upload_def upload_args)
  show ?thesis
    unfolding r u using jp ok missing x
    by (simp only: number_or_resolves parseInt_NaN) blast
qed

theorem numeric_fields_resolution_witness:
  "jwtExpirationInterval (Some ''soon'')
     = Inl (Error ''JWT_EXPIRATION_MINUTES bad value. Expiration value must be a duration expressed as a number'')
   \<and> port (Some ''soon'') = Inl (Error ''PORT bad value. Port value must be a number'')
   \<and> jwtExpirationInterval (Some ''9007199254740993'') = Inr (Number 9007199254740992)
   \<and> port (Some ''9007199254740993'') = Inr (Some ''9007199254740993'')
   \<and> xs (sizes (resize [(''RESIZE_SIZE_XS'', ''300''), (''RESIZE_SIZE_SM'', ''0''), (''RESIZE_SIZE_MD'', ''800px'')])) = Number 300
   \<and> sm (sizes (resize [(''RESIZE_SIZE_XS'', ''300''), (''RESIZE_SIZE_SM'', ''0''), (''RESIZE_SIZE_MD'', ''800px'')])) = Number 320
   \<and> md (sizes (resize [(''RESIZE_SIZE_XS'', ''300''), (''RESIZE_SIZE_SM'', ''0''), (''RESIZE_SIZE_MD'', ''800px'')])) = Number 800
   \<and> lg (sizes (resize [(''RESIZE_SIZE_XS'', ''300''), (''RESIZE_SIZE_SM'', ''0''), (''RESIZE_SIZE_MD'', ''800px'')])) = Number 1024"
proof -
  let ?env = "[(''RESIZE_SIZE_XS'', ''300''), (''RESIZE_SIZE_SM'', ''0''), (''RESIZE_SIZE_MD'', ''800px'')]"
  have p: "parseInt (Some ''soon'') = NaN" "parseInt (Some ''0'') = Number 0"
    "parseInt (Some ''800px'') = Number 800" "parseInt (Some ''300'') = Number 300"
    "parseInt (Some ''9007199254740993'') = Number 9007199254740992"
    by code_simp+
  have g: "getenv ?env ''RESIZE_SIZE_XS'' = Some ''300''" "getenv ?env ''RESIZE_SIZE_SM'' = Some ''0''"
    "getenv ?env ''RESIZE_SIZE_MD'' = Some ''800px''" "getenv ?env ''RESIZE_SIZE_LG'' = None"
    by (simp_all add: getenv_def)
  have t: "truthy (Some ''soon'')" "truthy (Some ''9007199254740993'')"
    by (simp_all add: truthy_def)
  show ?thesis
    using numeric_fields_resolution [of "''soon''" "Some ''soon''" ?env "''/srv/app''"
        "\<lparr>environment = Str ''test'', base = Some ''dist''\<rparr>"
        "\<lparr>ARCHIVE_MIME_TYPE = [], AUDIO_MIME_TYPE = [], DOCUMENT_MIME_TYPE = [],
          IMAGE_MIME_TYPE = [], VIDEO_MIME_TYPE = [], CONTENT_MIME_TYPE = []\<rparr>"]
      numeric_fields_resolution [of "''soon''" "Some ''9007199254740993''" ?env "''/srv/app''"
        "\<lparr>environment = Str ''test'', base = Some ''dist''\<rparr>"
        "\<lparr>ARCHIVE_MIME_TYPE = [], AUDIO_MIME_TYPE = [], DOCUMENT_MIME_TYPE = [],
          IMAGE_MIME_TYPE = [], VIDEO_MIME_TYPE = [], CONTENT_MIME_TYPE = []\<rparr>"]
    unfolding resolves_with_default_def g
    by (simp add: p t number_truthy_def)
qed

end
